theory Spec2Isabelle
  imports Main "HOL-Library.Char_ord" "HOL-Library.List_Lexorder"
begin

section \<open>The supauth request/response pipeline\<close>

text \<open>
  A shallow embedding of \<^verbatim>\<open>client.go\<close> (the pipeline: \<^verbatim>\<open>createRequest\<close>,
  \<^verbatim>\<open>sendRequest\<close>, \<^verbatim>\<open>createAndSendRequest\<close>) and of the auth facade built on it.

  The Go standard library is not part of the repository. Its text-level parts are taken
  as parameters, collected in the record \<open>stdlib\<close>: the bytes \<^verbatim>\<open>encoding/json\<close> writes for
  a JSON value, the first JSON value its \<^verbatim>\<open>Decoder\<close> reads from a body, the typed store
  into a caller's success shape, and \<^verbatim>\<open>url.Parse\<close>. What the library does with the
  types that this repository declares (the keys of a struct without tags, the keys of
  the tagged \<^verbatim>\<open>ErrorResponse\<close>) is written out over JSON values.
\<close>

subsection \<open>JSON values\<close>

text \<open>
  A JSON number keeps the distinction that decoding into a Go \<^verbatim>\<open>int\<close> depends on:
  \<open>JInt\<close> is a literal without fraction and exponent, \<open>JFloat\<close> any other number
  literal (kept as text).
\<close>

datatype json =
    JNull
  | JBool bool
  | JInt int
  | JFloat string
  | JString string
  | JArray "json list"
  | JObject "(string \<times> json) list"

subsection \<open>Errors\<close>

text \<open>
  Every \<^verbatim>\<open>error\<close> the pipeline returns is the value some callee produced, passed on
  unchanged. The constructor records the callee; the argument is its diagnostic.
\<close>

datatype error =
    ErrorsNew string                  \<comment> \<open>\<^verbatim>\<open>errors.New(msg)\<close>\<close>
  | MarshalError string               \<comment> \<open>from \<^verbatim>\<open>json.Marshal\<close>\<close>
  | InvalidMethodError string         \<comment> \<open>from \<^verbatim>\<open>http.NewRequestWithContext\<close>: the method refused\<close>
  | URLError string                   \<comment> \<open>from \<^verbatim>\<open>url.Parse\<close>, through \<^verbatim>\<open>http.NewRequestWithContext\<close>\<close>
  | DoError string                    \<comment> \<open>from \<^verbatim>\<open>HttpClient.Do\<close>\<close>
  | ScanError string                  \<comment> \<open>from \<^verbatim>\<open>Decoder.Decode\<close>: no JSON value could be read from the
                                          body (a syntax error, or the end of an empty body)\<close>
  | UnmarshalTypeError string string  \<comment> \<open>from \<^verbatim>\<open>Decoder.Decode\<close> into an \<^verbatim>\<open>ErrorResponse\<close>:
                                          the JSON kind and the Go target it does not fit\<close>
  | StoreError string                 \<comment> \<open>from \<^verbatim>\<open>Decoder.Decode\<close> into the success value\<close>

subsection \<open>Data shapes\<close>

type_synonym Time = int  \<comment> \<open>\<^verbatim>\<open>time.Time\<close> as an instant; the zero \<^verbatim>\<open>Time\<close> is 0\<close>

record SignUp =
  ID :: string
  Email :: string
  ConfirmedAt :: Time
  ConfirmationSentAt :: Time
  CreatedAt :: Time
  UpdatedAt :: Time

record User =
  ID :: string
  Aud :: string
  Role :: string
  Email :: string
  InvitedAt :: Time
  ConfirmedAt :: Time
  ConfirmationSentAt :: Time
  AppMetadata :: string  \<comment> \<open>\<^verbatim>\<open>struct{ provider string }\<close>\<close>
  UserMetadata :: "(string \<times> json) list"
  CreatedAt :: Time
  UpdatedAt :: Time

record Authenticated =
  AccessToken :: string
  TokenType :: string
  ExpiresIn :: int
  RefreshToken :: string
  User :: User
  ProviderToken :: string
  ProviderRefreshToken :: string

record UserCredentials =
  Email :: string
  Password :: string

record ErrorResponse =
  Status :: int        \<comment> \<open>\<^verbatim>\<open>json:"code"\<close>\<close>
  ErrorCode :: string  \<comment> \<open>\<^verbatim>\<open>json:"error_code"\<close>\<close>
  Message :: string    \<comment> \<open>\<^verbatim>\<open>json:"msg"\<close>\<close>

text \<open>
  \<^verbatim>\<open>AuthResponse.Data\<close> has type \<^verbatim>\<open>any\<close>. The pipeline stores three things there: nothing
  (\<^verbatim>\<open>nil\<close>), a pointer to an \<^verbatim>\<open>ErrorResponse\<close>, or the caller's success value (of type
  \<open>'s\<close>).
\<close>

datatype 's any = NilValue | ErrorValue ErrorResponse | SuccessValue 's

record 's AuthResponse =
  Status :: int
  Data :: "'s any"

text \<open>The success shapes of the facade: \<^verbatim>\<open>*SignUp\<close> and \<^verbatim>\<open>*Authenticated\<close>.\<close>

datatype shape = SignUpShape SignUp | AuthenticatedShape Authenticated

text \<open>
  The values the repository passes as \<^verbatim>\<open>data any\<close>: \<^verbatim>\<open>nil\<close>, a \<^verbatim>\<open>UserCredentials\<close>, a
  \<^verbatim>\<open>map[string]string\<close> (as its entries), and in the tests a string and a \<^verbatim>\<open>chan int\<close>.
\<close>

datatype payload =
    NilPayload
  | CredentialsPayload UserCredentials
  | MapPayload "(string \<times> string) list"
  | StringPayload string
  | ChanPayload

subsection \<open>HTTP\<close>

record request =
  Method :: string
  URL :: string
  Header :: "string \<rightharpoonup> string list"
  Body :: string

record response =
  StatusCode :: int
  Body :: string

text \<open>
  \<^verbatim>\<open>httpClientInterface\<close>: \<^verbatim>\<open>Do\<close> takes the request and the state of the world behind
  the transport (\<open>'net\<close>), and returns a response or the transport's error, and the
  new state.
\<close>

type_synonym 'net httpClientInterface =
  "request \<Rightarrow> 'net \<Rightarrow> (string + response) \<times> 'net"

record 'net client =
  BaseUrl :: string
  ApiKey :: string
  HttpClient :: "'net httpClientInterface"

record 'net Auth =
  client :: "'net client"

subsection \<open>The standard library\<close>

record 's stdlib =
  Render :: "json \<Rightarrow> string"
    \<comment> \<open>the bytes \<^verbatim>\<open>json.Marshal\<close> writes for a JSON value\<close>
  Scan :: "string \<Rightarrow> string + json"
    \<comment> \<open>\<^verbatim>\<open>Decoder\<close>: the first JSON value of the body, or the diagnostic\<close>
  Store :: "json \<Rightarrow> 's \<Rightarrow> string + 's option"
    \<comment> \<open>\<^verbatim>\<open>Decode(&successValue)\<close> on a scanned value: what \<^verbatim>\<open>successValue\<close> holds afterwards
        (\<open>None\<close>: the interface was set to \<^verbatim>\<open>nil\<close>), or the diagnostic\<close>
  ParseURL :: "string \<Rightarrow> string + string"
    \<comment> \<open>\<^verbatim>\<open>url.Parse\<close>: the parsed URL, or the diagnostic\<close>

text \<open>ASCII letters, as \<^verbatim>\<open>net/textproto\<close> and \<^verbatim>\<open>encoding/json\<close> change their case.\<close>

definition toUpper :: "char \<Rightarrow> char" where
  "toUpper c =
     (case map_of (zip ''abcdefghijklmnopqrstuvwxyz'' ''ABCDEFGHIJKLMNOPQRSTUVWXYZ'') c of
        Some u \<Rightarrow> u
      | None \<Rightarrow> c)"

definition toLower :: "char \<Rightarrow> char" where
  "toLower c =
     (case map_of (zip ''ABCDEFGHIJKLMNOPQRSTUVWXYZ'' ''abcdefghijklmnopqrstuvwxyz'') c of
        Some l \<Rightarrow> l
      | None \<Rightarrow> c)"

text \<open>
  The token characters of RFC 7230: the bytes of a valid method and of a header key
  that is canonicalised.
\<close>

definition isTokenChar :: "char \<Rightarrow> bool" where
  "isTokenChar c \<longleftrightarrow>
     c \<in> set (''abcdefghijklmnopqrstuvwxyz'' @ ''ABCDEFGHIJKLMNOPQRSTUVWXYZ'' @
              ''0123456789'' @ ''!#$%&*+-.^_`|~'' @ [CHR 0x27])"

definition validMethod :: "string \<Rightarrow> bool" where
  "validMethod method \<longleftrightarrow> method \<noteq> [] \<and> list_all isTokenChar method"

text \<open>
  \<^verbatim>\<open>textproto.CanonicalMIMEHeaderKey\<close>: a key of token characters gets an upper-case
  letter first and after each dash and lower-case letters elsewhere; any other key is
  left as it is. The flag says whether the next letter is upper case.
\<close>

fun canonical :: "bool \<Rightarrow> string \<Rightarrow> string" where
  "canonical upper [] = []"
| "canonical upper (c # cs) =
     (let c' = (if upper then toUpper c else toLower c)
      in c' # canonical (c' = CHR ''-'') cs)"

definition CanonicalMIMEHeaderKey :: "string \<Rightarrow> string" where
  "CanonicalMIMEHeaderKey s = (if list_all isTokenChar s then canonical True s else s)"

text \<open>\<^verbatim>\<open>Header.Set(key, value)\<close> replaces the values stored under the canonical key.\<close>

definition Header_Set :: "string \<Rightarrow> string \<Rightarrow> (string \<rightharpoonup> string list) \<Rightarrow> (string \<rightharpoonup> string list)" where
  "Header_Set key v h = h(CanonicalMIMEHeaderKey key \<mapsto> [v])"

text \<open>
  \<^verbatim>\<open>json.Marshal\<close>, first half: the JSON value of a payload. A struct without tags
  gives an object keyed by its field names, in declaration order; a map gives an
  object with its keys sorted; a channel is refused.
\<close>

fun encode :: "payload \<Rightarrow> string + json" where
  "encode NilPayload = Inr JNull"
| "encode (CredentialsPayload cr) =
     Inr (JObject [(''Email'', JString (UserCredentials.Email cr)),
                   (''Password'', JString (Password cr))])"
| "encode (MapPayload m) = Inr (JObject (map (\<lambda>(k, v). (k, JString v)) (sort_key fst m)))"
| "encode (StringPayload s) = Inr (JString s)"
| "encode ChanPayload = Inl ''json: unsupported type: chan int''"

definition Marshal :: "'s stdlib \<Rightarrow> payload \<Rightarrow> error + string" where
  "Marshal lib data =
     (case encode data of
        Inl d \<Rightarrow> Inl (MarshalError d)
      | Inr j \<Rightarrow> Inr (Render lib j))"

text \<open>
  \<^verbatim>\<open>http.NewRequestWithContext\<close> with a background context: an empty method means
  GET, the method has to be a token, the URL has to parse. The new request has no
  header yet.
\<close>

definition NewRequestWithContext :: "'s stdlib \<Rightarrow> string \<Rightarrow> string \<Rightarrow> string \<Rightarrow> error + request" where
  "NewRequestWithContext lib method url body =
     (let method = (if method = [] then ''GET'' else method)
      in if \<not> validMethod method
         then Inl (InvalidMethodError method)
         else (case ParseURL lib url of
                 Inl d \<Rightarrow> Inl (URLError d)
               | Inr u \<Rightarrow> Inr \<lparr>Method = method, URL = u, Header = Map.empty,
                               request.Body = body\<rparr>))"

subsection \<open>\<^verbatim>\<open>createRequest\<close>\<close>

definition createRequest :: "'s stdlib \<Rightarrow> 'net client \<Rightarrow> string \<Rightarrow> string \<Rightarrow> payload \<Rightarrow> error + request" where
  "createRequest lib c method endpoint data =
     (if BaseUrl c = [] then Inl (ErrorsNew ''supabase api url is empty'')
      else
        let reqUrl = BaseUrl c;
            reqUrl = (if endpoint \<noteq> [] then reqUrl @ ''/'' @ endpoint else reqUrl)
        in case Marshal lib data of
             Inl err \<Rightarrow> Inl err
           | Inr reqBody \<Rightarrow>
               (case NewRequestWithContext lib method reqUrl reqBody of
                  Inl err \<Rightarrow> Inl err
                | Inr req \<Rightarrow>
                    Inr (req\<lparr>Header :=
                           Header_Set ''Accept'' ''application/json''
                             (Header_Set ''Content-Type'' ''application/json'' (Header req))\<rparr>)))"

subsection \<open>Decoding an \<^verbatim>\<open>ErrorResponse\<close>\<close>

text \<open>
  \<^verbatim>\<open>encoding/json\<close> matches an object key against the names of the struct's fields,
  exactly or, failing that, without regard to case: ASCII letters by their upper case,
  and the two runes whose case folding reaches ASCII, U+017F (long s) and U+212A
  (Kelvin sign), as \<^verbatim>\<open>S\<close> and \<^verbatim>\<open>K\<close>. Any other rune beyond ASCII folds to a rune
  beyond ASCII, which no field name here contains, and is left as it is.
\<close>

fun foldName :: "string \<Rightarrow> string" where
  "foldName [] = []"
| "foldName (c # cs) =
     (if c = CHR 0xC5 \<and> take 1 cs = [CHR 0xBF] then CHR ''S'' # foldName (drop 1 cs)
      else if c = CHR 0xE2 \<and> take 2 cs = [CHR 0x84, CHR 0xAA] then CHR ''K'' # foldName (drop 2 cs)
      else toUpper c # foldName cs)"

datatype field = StatusField | ErrorCodeField | MessageField

text \<open>
  The field of \<^verbatim>\<open>ErrorResponse\<close> that a key addresses. The three names differ after
  folding, so the exact match that Go tries first finds the same field.
\<close>

definition fieldByName :: "string \<Rightarrow> field option" where
  "fieldByName key =
     (let k = foldName key
      in if k = foldName ''code'' then Some StatusField
         else if k = foldName ''error_code'' then Some ErrorCodeField
         else if k = foldName ''msg'' then Some MessageField
         else None)"

fun kind :: "json \<Rightarrow> string" where
  "kind JNull = ''null''"
| "kind (JBool b) = ''bool''"
| "kind (JInt n) = ''number''"
| "kind (JFloat l) = ''number''"
| "kind (JString s) = ''string''"
| "kind (JArray js) = ''array''"
| "kind (JObject kvs) = ''object''"

fun target :: "field \<Rightarrow> string" where
  "target StatusField = ''ErrorResponse.code of type int''"
| "target ErrorCodeField = ''ErrorResponse.error_code of type string''"
| "target MessageField = ''ErrorResponse.msg of type string''"

text \<open>
  Storing a JSON value into one field: \<^verbatim>\<open>null\<close> leaves the field as it is, an integer
  literal that fits a 64-bit \<^verbatim>\<open>int\<close> goes into \<^verbatim>\<open>Status\<close>, a string into the string
  fields; anything else is an \<^verbatim>\<open>UnmarshalTypeError\<close>.
\<close>

fun setField :: "field \<Rightarrow> json \<Rightarrow> ErrorResponse \<Rightarrow> error + ErrorResponse" where
  "setField f JNull ev = Inr ev"
| "setField StatusField (JInt n) ev =
     (if - (2 ^ 63) \<le> n \<and> n < 2 ^ 63 then Inr (ev\<lparr>ErrorResponse.Status := n\<rparr>)
      else Inl (UnmarshalTypeError ''number'' (target StatusField)))"
| "setField ErrorCodeField (JString s) ev = Inr (ev\<lparr>ErrorCode := s\<rparr>)"
| "setField MessageField (JString s) ev = Inr (ev\<lparr>Message := s\<rparr>)"
| "setField f j ev = Inl (UnmarshalTypeError (kind j) (target f))"

text \<open>
  The entries of an object are stored in the order of the text, so a later entry for
  the same field wins; keys that address no field are skipped. The first type error is
  the error that \<^verbatim>\<open>Decode\<close> returns.
\<close>

fun object :: "(string \<times> json) list \<Rightarrow> ErrorResponse \<Rightarrow> error + ErrorResponse" where
  "object [] ev = Inr ev"
| "object ((key, v) # kvs) ev =
     (case fieldByName key of
        None \<Rightarrow> object kvs ev
      | Some f \<Rightarrow>
          (case setField f v ev of
             Inl err \<Rightarrow> Inl err
           | Inr ev' \<Rightarrow> object kvs ev'))"

definition Unmarshal_ErrorResponse :: "json \<Rightarrow> ErrorResponse \<Rightarrow> error + ErrorResponse" where
  "Unmarshal_ErrorResponse j ev =
     (case j of
        JNull \<Rightarrow> Inr ev
      | JObject kvs \<Rightarrow> object kvs ev
      | _ \<Rightarrow> Inl (UnmarshalTypeError (kind j) ''ErrorResponse''))"

text \<open>\<^verbatim>\<open>json.NewDecoder(res.Body).Decode(errorValue)\<close>\<close>

definition Decode_ErrorResponse :: "'s stdlib \<Rightarrow> string \<Rightarrow> ErrorResponse \<Rightarrow> error + ErrorResponse" where
  "Decode_ErrorResponse lib body ev =
     (case Scan lib body of
        Inl d \<Rightarrow> Inl (ScanError d)
      | Inr j \<Rightarrow> Unmarshal_ErrorResponse j ev)"

text \<open>
  \<^verbatim>\<open>json.NewDecoder(res.Body).Decode(&successValue)\<close>, for a \<^verbatim>\<open>successValue\<close> that is not
  \<^verbatim>\<open>nil\<close>: the result is what the interface \<^verbatim>\<open>successValue\<close> holds afterwards.
\<close>

definition Decode_any :: "'s stdlib \<Rightarrow> string \<Rightarrow> 's \<Rightarrow> error + 's option" where
  "Decode_any lib body s =
     (case Scan lib body of
        Inl d \<Rightarrow> Inl (ScanError d)
      | Inr j \<Rightarrow>
          (case Store lib j s of
             Inl d \<Rightarrow> Inl (StoreError d)
           | Inr s' \<Rightarrow> Inr s'))"

subsection \<open>\<^verbatim>\<open>sendRequest\<close>\<close>

definition StatusNoContent :: int where
  "StatusNoContent = 204"

text \<open>The \<^verbatim>\<open>any\<close> stored in \<^verbatim>\<open>Data\<close> for a success value.\<close>

fun toAny :: "'s option \<Rightarrow> 's any" where
  "toAny None = NilValue"
| "toAny (Some s) = SuccessValue s"

definition sendRequest ::
  "'s stdlib \<Rightarrow> 'net client \<Rightarrow> request \<Rightarrow> 's option \<Rightarrow> 'net \<Rightarrow> (error + 's AuthResponse) \<times> 'net" where
  "sendRequest lib c req successValue net =
     (let req = req\<lparr>Header := Header_Set ''apikey'' (ApiKey c) (Header req)\<rparr>
      in case HttpClient c req net of
           (Inl err, net') \<Rightarrow> (Inl (DoError err), net')
         | (Inr res, net') \<Rightarrow>
             let response = \<lparr>Status = StatusCode res, Data = NilValue\<rparr>;
                 ok = (StatusCode res \<ge> 200 \<and> StatusCode res < 300)
             in if \<not> ok then
                  (let errorValue = \<lparr>ErrorResponse.Status = 0, ErrorCode = [], Message = []\<rparr>
                   in case Decode_ErrorResponse lib (response.Body res) errorValue of
                        Inl err \<Rightarrow> (Inl err, net')
                      | Inr errorValue \<Rightarrow>
                          (Inr (response\<lparr>Data := ErrorValue errorValue\<rparr>), net'))
                else if StatusCode res \<noteq> StatusNoContent \<and> successValue \<noteq> None then
                  (case Decode_any lib (response.Body res) (the successValue) of
                     Inl err \<Rightarrow> (Inl err, net')
                   | Inr successValue \<Rightarrow>
                       (Inr (response\<lparr>Data := toAny successValue\<rparr>), net'))
                else (Inr response, net'))"

subsection \<open>\<^verbatim>\<open>createAndSendRequest\<close>\<close>

definition createAndSendRequest ::
  "'s stdlib \<Rightarrow> 'net client \<Rightarrow> string \<Rightarrow> string \<Rightarrow> payload \<Rightarrow> 's option \<Rightarrow> 'net
     \<Rightarrow> (error + 's AuthResponse) \<times> 'net" where
  "createAndSendRequest lib c method endpoint data successValue net =
     (case createRequest lib c method endpoint data of
        Inl err \<Rightarrow> (Inl err, net)
      | Inr req \<Rightarrow> sendRequest lib c req successValue net)"

subsection \<open>The auth facade\<close>

definition authEndpoint :: string where
  "authEndpoint = ''auth/v1''"

definition MethodPost :: string where
  "MethodPost = ''POST''"

definition MethodPut :: string where
  "MethodPut = ''PUT''"

text \<open>
  \<^verbatim>\<open>newClient\<close>; the \<^verbatim>\<open>http.Client\<close> with its timeout of ten seconds is the transport
  \<open>httpClient\<close>.
\<close>

definition newClient :: "'net httpClientInterface \<Rightarrow> string \<Rightarrow> string \<Rightarrow> 'net client" where
  "newClient httpClient projectId apiKey =
     (let baseUrl = ''https://'' @ projectId @ ''.supabase.co/'' @ authEndpoint
      in \<lparr>BaseUrl = baseUrl, ApiKey = apiKey, HttpClient = httpClient\<rparr>)"

definition NewAuth :: "'net httpClientInterface \<Rightarrow> string \<Rightarrow> string \<Rightarrow> 'net Auth" where
  "NewAuth httpClient projectId apiKey = \<lparr>client = newClient httpClient projectId apiKey\<rparr>"

text \<open>\<^verbatim>\<open>&SignUp{}\<close> and \<^verbatim>\<open>&Authenticated{}\<close>: every field has its zero value.\<close>

definition zeroSignUp :: SignUp where
  "zeroSignUp =
     \<lparr>SignUp.ID = [], SignUp.Email = [], SignUp.ConfirmedAt = 0,
      SignUp.ConfirmationSentAt = 0, SignUp.CreatedAt = 0, SignUp.UpdatedAt = 0\<rparr>"

definition zeroUser :: User where
  "zeroUser =
     \<lparr>User.ID = [], Aud = [], Role = [], User.Email = [], InvitedAt = 0,
      User.ConfirmedAt = 0, User.ConfirmationSentAt = 0, AppMetadata = [],
      UserMetadata = [], User.CreatedAt = 0, User.UpdatedAt = 0\<rparr>"

definition zeroAuthenticated :: Authenticated where
  "zeroAuthenticated =
     \<lparr>AccessToken = [], TokenType = [], ExpiresIn = 0, RefreshToken = [],
      User = zeroUser, ProviderToken = [], ProviderRefreshToken = []\<rparr>"

definition SignUp ::
  "shape stdlib \<Rightarrow> 'net Auth \<Rightarrow> UserCredentials \<Rightarrow> 'net \<Rightarrow> (error + shape AuthResponse) \<times> 'net" where
  "SignUp lib a credentials net =
     (let successResponse = SignUpShape zeroSignUp
      in createAndSendRequest lib (client a) MethodPost ''signup''
           (CredentialsPayload credentials) (Some successResponse) net)"

definition SignIn ::
  "shape stdlib \<Rightarrow> 'net Auth \<Rightarrow> UserCredentials \<Rightarrow> 'net \<Rightarrow> (error + shape AuthResponse) \<times> 'net" where
  "SignIn lib a credentials net =
     (let successResponse = AuthenticatedShape zeroAuthenticated
      in createAndSendRequest lib (client a) MethodPost ''token?grant_type=password''
           (CredentialsPayload credentials) (Some successResponse) net)"

definition SignOut ::
  "shape stdlib \<Rightarrow> 'net Auth \<Rightarrow> string \<Rightarrow> 'net \<Rightarrow> (error + shape AuthResponse) \<times> 'net" where
  "SignOut lib a token net =
     (case createRequest lib (client a) MethodPost ''logout'' NilPayload of
        Inl err \<Rightarrow> (Inl err, net)
      | Inr req \<Rightarrow>
          (let req = req\<lparr>Header := Header_Set ''Authorization'' (''Bearer '' @ token) (Header req)\<rparr>
           in (case sendRequest lib (client a) req None net of
                 (Inl err, net') \<Rightarrow> (Inl err, net')
               | (Inr authResponse, net') \<Rightarrow> (Inr authResponse, net'))))"

definition RefreshToken ::
  "shape stdlib \<Rightarrow> 'net Auth \<Rightarrow> string \<Rightarrow> 'net \<Rightarrow> (error + shape AuthResponse) \<times> 'net" where
  "RefreshToken lib a refreshToken net =
     (let reqBody = MapPayload [(''refresh_token'', refreshToken)];
          successResponse = AuthenticatedShape zeroAuthenticated
      in createAndSendRequest lib (client a) MethodPost ''token?grant_type=refresh_token''
           reqBody (Some successResponse) net)"

definition ForgottenPassword ::
  "shape stdlib \<Rightarrow> 'net Auth \<Rightarrow> string \<Rightarrow> 'net \<Rightarrow> (error + shape AuthResponse) \<times> 'net" where
  "ForgottenPassword lib a email net =
     (let reqBody = MapPayload [(''email'', email)]
      in createAndSendRequest lib (client a) MethodPost ''recover'' reqBody None net)"

definition ResetPassword ::
  "shape stdlib \<Rightarrow> 'net Auth \<Rightarrow> string \<Rightarrow> string \<Rightarrow> 'net \<Rightarrow> (error + shape AuthResponse) \<times> 'net" where
  "ResetPassword lib a token password net =
     (let reqBody = MapPayload [(''password'', password)]
      in case createRequest lib (client a) MethodPut ''user?type=recovery'' reqBody of
           Inl err \<Rightarrow> (Inl err, net)
         | Inr req \<Rightarrow>
             (let req = req\<lparr>Header := Header_Set ''Authorization'' (''Bearer '' @ token) (Header req)\<rparr>
              in (case sendRequest lib (client a) req None net of
                    (Inl err, net') \<Rightarrow> (Inl err, net')
                  | (Inr authResponse, net') \<Rightarrow> (Inr authResponse, net'))))"

subsection \<open>Test doubles\<close>

text \<open>
  The fixtures of \<^verbatim>\<open>client_test.go\<close>: the response that \<^verbatim>\<open>httptest.NewRecorder\<close> gives
  after \<^verbatim>\<open>WriteHeader\<close> and \<^verbatim>\<open>Write\<close>, the client under test, and a request.
\<close>

definition Result :: "int \<Rightarrow> string \<Rightarrow> response" where
  "Result statusCode jsonResponse = \<lparr>StatusCode = statusCode, response.Body = jsonResponse\<rparr>"

definition testRequest :: request where
  "testRequest = \<lparr>Method = ''GET'', URL = ''http://localhost/test'', Header = Map.empty,
                  request.Body = ''null''\<rparr>"

text \<open>
  \<^verbatim>\<open>HttpClientMock\<close> of the tests: \<^verbatim>\<open>Do\<close> returns the canned result and records the
  request it was called with.
\<close>

definition HttpClientMock :: "string + response \<Rightarrow> (request list) httpClientInterface" where
  "HttpClientMock result req calls = (result, calls @ [req])"

definition sut :: "string \<Rightarrow> string + response \<Rightarrow> (request list) client" where
  "sut url result = \<lparr>BaseUrl = url, ApiKey = [], HttpClient = HttpClientMock result\<rparr>"

text \<open>
  A canned standard library for the bodies and values of the tests: what
  \<^verbatim>\<open>encoding/json\<close> reads from these bodies and writes for these values, and a
  \<^verbatim>\<open>url.Parse\<close> that refuses the host with a brace. The success shape of \<open>canned\<close> is
  the generic map of the tests, which takes any object.
\<close>

definition fooBar :: string where
  \<open>fooBar = ''{"foo": "bar"}''\<close>

definition badRequest :: string where
  \<open>badRequest = ''{"code": 400, "error_code": "used_foo_bar", "msg": "Bad Request"}''\<close>

text \<open>The two diagnostics that the tests expect.\<close>

definition errInvalidCharacter :: string where
  "errInvalidCharacter =
     ''invalid character '' @ [CHR 0x27] @ ''!'' @ [CHR 0x27] @ '' looking for beginning of value''"

definition errInvalidURL :: string where
  \<open>errInvalidURL =
     ''parse "https://test.supabase.co{auth/v1/test": invalid character "{" in host name''\<close>

definition cannedScan :: "string \<Rightarrow> string + json" where
  "cannedScan body =
     (if body = fooBar then Inr (JObject [(''foo'', JString ''bar'')])
      else if body = badRequest
        then Inr (JObject [(''code'', JInt 400), (''error_code'', JString ''used_foo_bar''),
                           (''msg'', JString ''Bad Request'')])
      else if body = ''{}'' then Inr (JObject [])
      else if body = ''null'' then Inr JNull
      else if body = [] then Inl ''EOF''
      else Inl (''invalid character '' @ [CHR 0x27] @ take 1 body @ [CHR 0x27]
                @ '' looking for beginning of value''))"

definition cannedRender :: "json \<Rightarrow> string" where
  \<open>cannedRender j =
     (if j = JNull then ''null''
      else if j = JString fooBar
        then [CHR 0x22] @ ''{'' @ [CHR 0x5C, CHR 0x22] @ ''foo'' @ [CHR 0x5C, CHR 0x22] @ '': ''
             @ [CHR 0x5C, CHR 0x22] @ ''bar'' @ [CHR 0x5C, CHR 0x22] @ ''}'' @ [CHR 0x22]
      else if j = JObject [(''Email'', JString ''test@example.com''),
                           (''Password'', JString ''password'')]
        then ''{"Email":"test@example.com","Password":"password"}''
      else [])\<close>

definition cannedStore :: "json \<Rightarrow> (string \<times> json) list \<Rightarrow> string + (string \<times> json) list option" where
  "cannedStore j m =
     (case j of
        JNull \<Rightarrow> Inr None
      | JObject kvs \<Rightarrow> Inr (Some kvs)
      | _ \<Rightarrow> Inl (''json: cannot unmarshal '' @ kind j))"

definition cannedParseURL :: "string \<Rightarrow> string + string" where
  \<open>cannedParseURL url =
     (if CHR ''{'' \<in> set url
      then Inl (''parse "'' @ url @ ''": invalid character "{" in host name'')
      else Inr url)\<close>

definition noStore :: "json \<Rightarrow> shape \<Rightarrow> string + shape option" where
  "noStore j s = Inl ''no success value is decoded in this test''"

definition cannedWith :: "(json \<Rightarrow> 's \<Rightarrow> string + 's option) \<Rightarrow> 's stdlib" where
  "cannedWith store = \<lparr>Render = cannedRender, Scan = cannedScan, Store = store,
                        ParseURL = cannedParseURL\<rparr>"

definition canned :: "((string \<times> json) list) stdlib" where
  "canned = cannedWith cannedStore"

text \<open>The credentials of \<^verbatim>\<open>auth_test.go\<close>, and the request that \<^verbatim>\<open>SignUp\<close> builds for them.\<close>

definition creds :: UserCredentials where
  "creds = \<lparr>UserCredentials.Email = ''test@example.com'', Password = ''password''\<rparr>"

definition signupRequest :: request where
  \<open>signupRequest =
     \<lparr>Method = ''POST'', URL = ''https://test.supabase.co/auth/v1/signup'',
      Header = Header_Set ''Accept'' ''application/json''
                 (Header_Set ''Content-Type'' ''application/json'' Map.empty),
      request.Body = ''{"Email":"test@example.com","Password":"password"}''\<rparr>\<close>

section \<open>Properties\<close>

subsection \<open>Properties of the decoder\<close>

lemma setField_other:
  assumes "setField f v ev = Inr ev'"
  shows "(f \<noteq> StatusField \<longrightarrow> ErrorResponse.Status ev' = ErrorResponse.Status ev)
       \<and> (f \<noteq> ErrorCodeField \<longrightarrow> ErrorCode ev' = ErrorCode ev)
       \<and> (f \<noteq> MessageField \<longrightarrow> Message ev' = Message ev)"
  using assms by (cases f; cases v) (auto split: if_splits)

lemma object_unaddressed:
  assumes "object kvs ev = Inr ev'"
    and "\<forall>kv \<in> set kvs. fieldByName (fst kv) \<noteq> Some f"
  shows "(f = StatusField \<longrightarrow> ErrorResponse.Status ev' = ErrorResponse.Status ev)
       \<and> (f = ErrorCodeField \<longrightarrow> ErrorCode ev' = ErrorCode ev)
       \<and> (f = MessageField \<longrightarrow> Message ev' = Message ev)"
  using assms
proof (induction kvs arbitrary: ev)
  case Nil
  then show ?case by simp
next
  case (Cons kv kvs)
  obtain key v where kv: "kv = (key, v)" by (cases kv)
  show ?case
  proof (cases "fieldByName key")
    case None
    with Cons kv show ?thesis by simp
  next
    case (Some g)
    with Cons.prems kv have g: "g \<noteq> f" by auto
    from Cons.prems(1) kv Some obtain ev1 where
      s: "setField g v ev = Inr ev1" and r: "object kvs ev1 = Inr ev'"
      by (auto split: sum.splits)
    from Cons.IH [OF r] Cons.prems(2) have
      "(f = StatusField \<longrightarrow> ErrorResponse.Status ev' = ErrorResponse.Status ev1)
       \<and> (f = ErrorCodeField \<longrightarrow> ErrorCode ev' = ErrorCode ev1)
       \<and> (f = MessageField \<longrightarrow> Message ev' = Message ev1)"
      by simp
    with setField_other [OF s] g show ?thesis by auto
  qed
qed

lemma object_no_field:
  "\<forall>kv \<in> set kvs. fieldByName (fst kv) = None \<Longrightarrow> object kvs ev = Inr ev"
  by (induction kvs arbitrary: ev) auto

lemma object_three_keys:
  "- (2 ^ 63) \<le> n \<Longrightarrow> n < 2 ^ 63 \<Longrightarrow>
   object [(''code'', JInt n), (''error_code'', JString e), (''msg'', JString m)] ev
     = Inr \<lparr>ErrorResponse.Status = n, ErrorCode = e, Message = m\<rparr>"
  by (simp add: fieldByName_def toUpper_def)

lemma object_three_keys_inv:
  "object [(''code'', JInt n), (''error_code'', JString e), (''msg'', JString m)] ev = Inr ev'
   \<Longrightarrow> ev' = \<lparr>ErrorResponse.Status = n, ErrorCode = e, Message = m\<rparr>"
  by (cases ev) (auto simp add: fieldByName_def toUpper_def split: if_splits)

subsection \<open>Properties of \<open>createRequest\<close>\<close>

lemma createRequest_nonempty:
  assumes "BaseUrl c \<noteq> []"
  shows "createRequest lib c method endpoint data =
     (case encode data of
        Inl d \<Rightarrow> Inl (MarshalError d)
      | Inr j \<Rightarrow>
          if \<not> validMethod (if method = [] then ''GET'' else method)
          then Inl (InvalidMethodError (if method = [] then ''GET'' else method))
          else (case ParseURL lib (if endpoint = [] then BaseUrl c else BaseUrl c @ ''/'' @ endpoint) of
                  Inl d \<Rightarrow> Inl (URLError d)
                | Inr u \<Rightarrow>
                    Inr \<lparr>Method = (if method = [] then ''GET'' else method), URL = u,
                         Header = Header_Set ''Accept'' ''application/json''
                                    (Header_Set ''Content-Type'' ''application/json'' Map.empty),
                         request.Body = Render lib j\<rparr>))"
  using assms
  by (simp add: createRequest_def Marshal_def NewRequestWithContext_def Let_def
           split: sum.splits)

lemma createAndSendRequest_Inr:
  "createRequest lib c method endpoint data = Inr req \<Longrightarrow>
   createAndSendRequest lib c method endpoint data successValue net
     = sendRequest lib c req successValue net"
  by (simp add: createAndSendRequest_def)

lemma createRequest_Credentials_body:
  assumes "createRequest lib c method endpoint (CredentialsPayload credentials) = Inr req"
  shows "request.Body req =
     Render lib (JObject [(''Email'', JString (UserCredentials.Email credentials)),
                          (''Password'', JString (Password credentials))])"
proof -
  from assms have ne: "BaseUrl c \<noteq> []"
    by (auto simp add: createRequest_def)
  from assms show ?thesis
    by (auto simp add: createRequest_nonempty [OF ne] split: sum.splits if_splits)
qed

subsection \<open>Properties of \<open>sendRequest\<close>\<close>

lemma sendRequest_Do_error:
  "HttpClient c (req\<lparr>Header := Header_Set ''apikey'' (ApiKey c) (Header req)\<rparr>) net = (Inl err, net')
   \<Longrightarrow> sendRequest lib c req successValue net = (Inl (DoError err), net')"
  by (simp add: sendRequest_def)

lemma sendRequest_not_ok:
  assumes "HttpClient c (req\<lparr>Header := Header_Set ''apikey'' (ApiKey c) (Header req)\<rparr>) net = (Inr res, net')"
    and "\<not> (StatusCode res \<ge> 200 \<and> StatusCode res < 300)"
  shows "sendRequest lib c req successValue net =
     (case Decode_ErrorResponse lib (response.Body res)
             \<lparr>ErrorResponse.Status = 0, ErrorCode = [], Message = []\<rparr> of
        Inl err \<Rightarrow> (Inl err, net')
      | Inr ev \<Rightarrow> (Inr \<lparr>Status = StatusCode res, Data = ErrorValue ev\<rparr>, net'))"
  using assms by (auto simp add: sendRequest_def split: sum.splits)

lemma sendRequest_ok_decode:
  assumes "HttpClient c (req\<lparr>Header := Header_Set ''apikey'' (ApiKey c) (Header req)\<rparr>) net = (Inr res, net')"
    and "StatusCode res \<ge> 200" and "StatusCode res < 300"
    and "StatusCode res \<noteq> 204"
  shows "sendRequest lib c req (Some s) net =
     (case Decode_any lib (response.Body res) s of
        Inl err \<Rightarrow> (Inl err, net')
      | Inr v \<Rightarrow> (Inr \<lparr>Status = StatusCode res, Data = toAny v\<rparr>, net'))"
  using assms by (auto simp add: sendRequest_def StatusNoContent_def split: sum.splits)

lemma sendRequest_ok_no_decode:
  assumes "HttpClient c (req\<lparr>Header := Header_Set ''apikey'' (ApiKey c) (Header req)\<rparr>) net = (Inr res, net')"
    and "StatusCode res \<ge> 200" and "StatusCode res < 300"
    and "StatusCode res = 204 \<or> successValue = None"
  shows "sendRequest lib c req successValue net =
     (Inr \<lparr>Status = StatusCode res, Data = NilValue\<rparr>, net')"
  using assms by (auto simp add: sendRequest_def StatusNoContent_def)

lemma sendRequest_Inr:
  assumes "sendRequest lib c req successValue net = (Inr r, net')"
  obtains res where
    "HttpClient c (req\<lparr>Header := Header_Set ''apikey'' (ApiKey c) (Header req)\<rparr>) net = (Inr res, net')"
proof -
  obtain x n where x: "HttpClient c (req\<lparr>Header := Header_Set ''apikey'' (ApiKey c) (Header req)\<rparr>) net = (x, n)"
    by (cases "HttpClient c (req\<lparr>Header := Header_Set ''apikey'' (ApiKey c) (Header req)\<rparr>) net")
  show thesis
  proof (cases x)
    case (Inl err)
    with x assms show thesis by (simp add: sendRequest_Do_error)
  next
    case (Inr res)
    with x assms have "n = net'"
      by (auto simp add: sendRequest_def Let_def split: sum.splits if_splits)
    with x Inr that show thesis by simp
  qed
qed

subsection \<open>The test doubles\<close>

lemma Do_sut:
  "HttpClient (sut url result)
     (req\<lparr>Header := Header_Set ''apikey'' (ApiKey (sut url result)) (Header req)\<rparr>) calls
     = (result, calls @ [req\<lparr>Header := Header_Set ''apikey'' [] (Header req)\<rparr>])"
  by (simp add: sut_def HttpClientMock_def)

lemma Scan_canned_fooBar:
  "Scan canned fooBar = Inr (JObject [(''foo'', JString ''bar'')])"
  by (simp add: canned_def cannedWith_def cannedScan_def)

lemma Scan_canned_badRequest:
  "Scan canned badRequest
     = Inr (JObject [(''code'', JInt 400), (''error_code'', JString ''used_foo_bar''),
                     (''msg'', JString ''Bad Request'')])"
  by (simp add: canned_def cannedWith_def cannedScan_def fooBar_def badRequest_def)

lemma Scan_canned_bang:
  "Scan canned ''!'' = Inl errInvalidCharacter"
  by (simp add: canned_def cannedWith_def cannedScan_def fooBar_def badRequest_def
        errInvalidCharacter_def)

lemma Scan_canned_null:
  "Scan canned ''null'' = Inr JNull"
  by (simp add: canned_def cannedWith_def cannedScan_def fooBar_def badRequest_def)

lemma Scan_canned_empty_object:
  "Scan canned ''{}'' = Inr (JObject [])"
  by (simp add: canned_def cannedWith_def cannedScan_def fooBar_def badRequest_def)

lemma createRequest_signup:
  "createRequest (cannedWith noStore) (sut ''https://test.supabase.co/auth/v1'' result)
     MethodPost ''signup'' (CredentialsPayload creds) = Inr signupRequest"
proof -
  have h: "BaseUrl (sut ''https://test.supabase.co/auth/v1'' result) \<noteq> []"
    by (simp add: sut_def)
  show ?thesis
    by (simp add: createRequest_nonempty [OF h])
       (simp add: sut_def validMethod_def isTokenChar_def cannedWith_def MethodPost_def
          cannedParseURL_def cannedRender_def creds_def signupRequest_def)
qed

subsection \<open>The tests of the repository\<close>

text \<open>
  The cases of \<^verbatim>\<open>createRequestTests\<close> and the first case of
  \<^verbatim>\<open>varCreateAndSendRequestTests\<close>, on the test doubles.
\<close>

lemma validMethod_GET: "validMethod ''GET''"
  by (simp add: validMethod_def isTokenChar_def)

lemma validMethod_POST: "validMethod ''POST''"
  by (simp add: validMethod_def isTokenChar_def)

lemma BaseUrl_sut: "BaseUrl (sut url result) = url"
  by (simp add: sut_def)

lemma Header_application_json:
  "Header_Set ''Accept'' ''application/json''
     (Header_Set ''Content-Type'' ''application/json'' Map.empty) ''Content-Type''
     = Some [''application/json'']"
  "Header_Set ''Accept'' ''application/json''
     (Header_Set ''Content-Type'' ''application/json'' Map.empty) ''Accept''
     = Some [''application/json'']"
  by (simp_all add: Header_Set_def CanonicalMIMEHeaderKey_def isTokenChar_def toUpper_def toLower_def
        Let_def)

lemma test_createRequest_nil_data:
  "\<exists>req. createRequest canned (sut ''https://test.supabase.co/auth/v1'' result) ''GET'' ''test''
            NilPayload = Inr req
         \<and> Method req = ''GET'' \<and> URL req = ''https://test.supabase.co/auth/v1/test''
         \<and> Header req ''Content-Type'' = Some [''application/json'']
         \<and> Header req ''Accept'' = Some [''application/json'']"
  by (simp add: createRequest_nonempty BaseUrl_sut validMethod_GET canned_def cannedWith_def
        cannedParseURL_def Header_application_json)

lemma test_createRequest_json_data:
  "\<exists>req. createRequest canned (sut ''https://test.supabase.co/auth/v1'' result) ''GET'' ''test''
            (StringPayload fooBar) = Inr req
         \<and> Method req = ''GET'' \<and> URL req = ''https://test.supabase.co/auth/v1/test''
         \<and> Header req ''Content-Type'' = Some [''application/json'']
         \<and> Header req ''Accept'' = Some [''application/json'']"
  by (simp add: createRequest_nonempty BaseUrl_sut validMethod_GET canned_def cannedWith_def
        cannedParseURL_def Header_application_json)

lemma test_createRequest_marshal_error:
  "createRequest canned (sut ''https://test.supabase.co/auth/v1'' result) ''GET'' ''test''
     ChanPayload = Inl (MarshalError ''json: unsupported type: chan int'')"
  by (simp add: createRequest_nonempty BaseUrl_sut)

lemma test_createRequest_invalid_url:
  "createRequest canned (sut ''https://test.supabase.co{auth/v1'' result) ''GET'' ''test''
     NilPayload = Inl (URLError errInvalidURL)"
  by (simp add: createRequest_nonempty BaseUrl_sut validMethod_GET)
     (simp add: canned_def cannedWith_def cannedParseURL_def errInvalidURL_def)

lemma test_createRequest_no_base_url:
  "createRequest canned (sut [] result) ''GET'' ''test'' NilPayload
     = Inl (ErrorsNew ''supabase api url is empty'')"
  by (simp add: createRequest_def BaseUrl_sut)

lemma test_createAndSendRequest:
  "fst (createAndSendRequest canned (sut ''https://test.supabase.co/auth/v1'' (Inr (Result 200 fooBar)))
          MethodPost ''test'' NilPayload (Some []) [])
     = Inr \<lparr>Status = 200, Data = SuccessValue [(''foo'', JString ''bar'')]\<rparr>"
proof -
  let ?c = "sut ''https://test.supabase.co/auth/v1'' (Inr (Result 200 fooBar))"
  obtain req where req: "createRequest canned ?c MethodPost ''test'' NilPayload = Inr req"
    by (simp add: createRequest_nonempty BaseUrl_sut MethodPost_def validMethod_POST
          canned_def cannedWith_def cannedParseURL_def)
  have ok: "(200::int) \<le> StatusCode (Result 200 fooBar)" "StatusCode (Result 200 fooBar) < 300"
    "StatusCode (Result 200 fooBar) \<noteq> 204"
    by (simp_all add: Result_def)
  have dec: "Decode_any canned (response.Body (Result 200 fooBar)) [] = Inr (Some [(''foo'', JString ''bar'')])"
    by (simp add: Decode_any_def Result_def Scan_canned_fooBar)
       (simp add: canned_def cannedWith_def cannedStore_def)
  show ?thesis
    by (simp add: createAndSendRequest_Inr [OF req] sendRequest_ok_decode [OF Do_sut ok] dec)
       (simp add: Result_def)
qed

section \<open>The claims\<close>

text \<open>
  C1. When the transport delivers a response whose status code is outside [200,300) and
  whose body holds a JSON value that decodes into an \<^verbatim>\<open>ErrorResponse\<close>, \<^verbatim>\<open>sendRequest\<close>
  returns no error and an envelope with the status code of the response and the decoded
  \<^verbatim>\<open>ErrorResponse\<close> as data. For a body with the keys \<^verbatim>\<open>code\<close>, \<^verbatim>\<open>error_code\<close> and \<^verbatim>\<open>msg\<close>
  the fields \<^verbatim>\<open>Status\<close>, \<^verbatim>\<open>ErrorCode\<close> and \<^verbatim>\<open>Message\<close> hold their values.
\<close>

theorem sendRequest_error_shape:
  assumes "HttpClient c (req\<lparr>Header := Header_Set ''apikey'' (ApiKey c) (Header req)\<rparr>) net = (Inr res, net')"
    and "\<not> (StatusCode res \<ge> 200 \<and> StatusCode res < 300)"
    and "Scan lib (response.Body res) = Inr j"
    and "Unmarshal_ErrorResponse j \<lparr>ErrorResponse.Status = 0, ErrorCode = [], Message = []\<rparr> = Inr ev"
  shows "sendRequest lib c req successValue net
           = (Inr \<lparr>Status = StatusCode res, Data = ErrorValue ev\<rparr>, net')
       \<and> (\<forall>code error_code msg.
            j = JObject [(''code'', JInt code), (''error_code'', JString error_code),
                         (''msg'', JString msg)]
            \<longrightarrow> ev = \<lparr>ErrorResponse.Status = code, ErrorCode = error_code, Message = msg\<rparr>)"
proof
  from assms(3,4) have
    "Decode_ErrorResponse lib (response.Body res)
       \<lparr>ErrorResponse.Status = 0, ErrorCode = [], Message = []\<rparr> = Inr ev"
    by (simp add: Decode_ErrorResponse_def)
  then show "sendRequest lib c req successValue net
          = (Inr \<lparr>Status = StatusCode res, Data = ErrorValue ev\<rparr>, net')"
    by (simp add: sendRequest_not_ok [OF assms(1,2)])
next
  show "\<forall>code error_code msg.
      j = JObject [(''code'', JInt code), (''error_code'', JString error_code),
                   (''msg'', JString msg)]
      \<longrightarrow> ev = \<lparr>ErrorResponse.Status = code, ErrorCode = error_code, Message = msg\<rparr>"
  proof (intro allI impI)
    fix code error_code msg
    assume "j = JObject [(''code'', JInt code), (''error_code'', JString error_code),
                         (''msg'', JString msg)]"
    with assms(4) have
      "object [(''code'', JInt code), (''error_code'', JString error_code), (''msg'', JString msg)]
         \<lparr>ErrorResponse.Status = 0, ErrorCode = [], Message = []\<rparr> = Inr ev"
      by (simp add: Unmarshal_ErrorResponse_def del: object.simps)
    then show "ev = \<lparr>ErrorResponse.Status = code, ErrorCode = error_code, Message = msg\<rparr>"
      by (rule object_three_keys_inv)
  qed
qed

text \<open>
  The third case of \<^verbatim>\<open>sendRequestsTests\<close> (with the body on one line): status 400 and
  an error-shaped body.
\<close>

theorem sendRequest_error_shape_witness:
  "sendRequest canned (sut ''http://localhost'' (Inr (Result 400 badRequest))) testRequest
     (Some []) []
   = (Inr \<lparr>Status = 400,
           Data = ErrorValue \<lparr>ErrorResponse.Status = 400, ErrorCode = ''used_foo_bar'',
                               Message = ''Bad Request''\<rparr>\<rparr>,
      [testRequest\<lparr>Header := Header_Set ''apikey'' [] (Header testRequest)\<rparr>])"
proof -
  let ?j = "JObject [(''code'', JInt 400), (''error_code'', JString ''used_foo_bar''),
                     (''msg'', JString ''Bad Request'')]"
  let ?ev = "\<lparr>ErrorResponse.Status = 400, ErrorCode = ''used_foo_bar'', Message = ''Bad Request''\<rparr>"
  have st: "\<not> (StatusCode (Result 400 badRequest) \<ge> 200 \<and> StatusCode (Result 400 badRequest) < 300)"
    by (simp add: Result_def)
  have sc: "Scan canned (response.Body (Result 400 badRequest)) = Inr ?j"
    by (simp add: Result_def Scan_canned_badRequest)
  have "object [(''code'', JInt 400), (''error_code'', JString ''used_foo_bar''),
                (''msg'', JString ''Bad Request'')]
          \<lparr>ErrorResponse.Status = 0, ErrorCode = [], Message = []\<rparr> = Inr ?ev"
    by (rule object_three_keys) simp_all
  then have un: "Unmarshal_ErrorResponse ?j \<lparr>ErrorResponse.Status = 0, ErrorCode = [], Message = []\<rparr> = Inr ?ev"
    by (simp add: Unmarshal_ErrorResponse_def)
  from sendRequest_error_shape [OF Do_sut st sc un]
  show ?thesis by (simp add: Result_def)
qed

text \<open>
  C2, as stated: for every call of \<^verbatim>\<open>sendRequest\<close> that returns an envelope, the data is
  absent if and only if the status code is 204 or no success shape was requested. This
  fails for a response outside the success range: with status 400 and no success shape
  (as \<^verbatim>\<open>SignOut\<close> calls it), the data is the decoded \<^verbatim>\<open>ErrorResponse\<close>.
\<close>

theorem sendRequest_data_counterexample:
  "fst (sendRequest canned (sut ''http://localhost'' (Inr (Result 400 badRequest))) testRequest None [])
     = Inr \<lparr>Status = 400,
            Data = ErrorValue \<lparr>ErrorResponse.Status = 400, ErrorCode = ''used_foo_bar'',
                                Message = ''Bad Request''\<rparr>\<rparr>
   \<and> \<not> (Data \<lparr>Status = 400,
                Data = ErrorValue \<lparr>ErrorResponse.Status = 400, ErrorCode = ''used_foo_bar'',
                                    Message = ''Bad Request''\<rparr>\<rparr> = (NilValue :: (string \<times> json) list any)
          \<longleftrightarrow> (400::int) = 204 \<or> (None :: (string \<times> json) list option) = None)"
proof -
  have st: "\<not> (StatusCode (Result 400 badRequest) \<ge> 200 \<and> StatusCode (Result 400 badRequest) < 300)"
    by (simp add: Result_def)
  have "object [(''code'', JInt 400), (''error_code'', JString ''used_foo_bar''),
                (''msg'', JString ''Bad Request'')]
          \<lparr>ErrorResponse.Status = 0, ErrorCode = [], Message = []\<rparr>
        = Inr \<lparr>ErrorResponse.Status = 400, ErrorCode = ''used_foo_bar'', Message = ''Bad Request''\<rparr>"
    by (rule object_three_keys) simp_all
  then have dec: "Decode_ErrorResponse canned (response.Body (Result 400 badRequest))
          \<lparr>ErrorResponse.Status = 0, ErrorCode = [], Message = []\<rparr>
        = Inr \<lparr>ErrorResponse.Status = 400, ErrorCode = ''used_foo_bar'', Message = ''Bad Request''\<rparr>"
    by (simp add: Decode_ErrorResponse_def Result_def Scan_canned_badRequest
          Unmarshal_ErrorResponse_def del: object.simps)
  have "fst (sendRequest canned (sut ''http://localhost'' (Inr (Result 400 badRequest))) testRequest None [])
     = Inr \<lparr>Status = StatusCode (Result 400 badRequest),
            Data = ErrorValue \<lparr>ErrorResponse.Status = 400, ErrorCode = ''used_foo_bar'',
                                Message = ''Bad Request''\<rparr>\<rparr>"
    by (simp add: sendRequest_not_ok [OF Do_sut st] dec)
  then show ?thesis
    by (simp add: Result_def)
qed

text \<open>
  C2, amended: for every call of \<^verbatim>\<open>sendRequest\<close> that returns an envelope, the transport
  delivered a response and the envelope has its status code. The data is absent if and
  only if the status code is in [200,300) and either it is 204, or no success shape was
  requested, or decoding left the success value \<^verbatim>\<open>nil\<close>. With a status code in [200,300)
  other than 204 and a success shape requested, the data is the success value as
  decoded; with a status code outside [200,300) it is the decoded \<^verbatim>\<open>ErrorResponse\<close>.
\<close>

theorem sendRequest_data:
  assumes "sendRequest lib c req successValue net = (Inr r, net')"
  shows "\<exists>res. HttpClient c (req\<lparr>Header := Header_Set ''apikey'' (ApiKey c) (Header req)\<rparr>) net
                 = (Inr res, net')
             \<and> AuthResponse.Status r = StatusCode res
             \<and> (Data r = NilValue \<longleftrightarrow>
                  (StatusCode res \<ge> 200 \<and> StatusCode res < 300)
                  \<and> (StatusCode res = 204 \<or> successValue = None
                      \<or> (\<exists>s. successValue = Some s
                              \<and> Decode_any lib (response.Body res) s = Inr None)))
             \<and> (StatusCode res \<ge> 200 \<and> StatusCode res < 300 \<and> StatusCode res \<noteq> 204
                  \<longrightarrow> (\<forall>s. successValue = Some s
                        \<longrightarrow> (\<exists>v. Decode_any lib (response.Body res) s = Inr v \<and> Data r = toAny v)))
             \<and> (\<not> (StatusCode res \<ge> 200 \<and> StatusCode res < 300)
                  \<longrightarrow> (\<exists>ev. Decode_ErrorResponse lib (response.Body res)
                                \<lparr>ErrorResponse.Status = 0, ErrorCode = [], Message = []\<rparr> = Inr ev
                            \<and> Data r = ErrorValue ev))"
proof -
  from assms obtain res where
    do: "HttpClient c (req\<lparr>Header := Header_Set ''apikey'' (ApiKey c) (Header req)\<rparr>) net = (Inr res, net')"
    by (rule sendRequest_Inr)
  show ?thesis
  proof (cases "StatusCode res \<ge> 200 \<and> StatusCode res < 300")
    case False
    with assms sendRequest_not_ok [OF do False, of lib successValue]
    obtain ev where
      "Decode_ErrorResponse lib (response.Body res)
         \<lparr>ErrorResponse.Status = 0, ErrorCode = [], Message = []\<rparr> = Inr ev"
      and "r = \<lparr>Status = StatusCode res, Data = ErrorValue ev\<rparr>"
      by (auto split: sum.splits)
    with do False show ?thesis by auto
  next
    case True
    then have ok: "StatusCode res \<ge> 200" "StatusCode res < 300" by simp_all
    show ?thesis
    proof (cases "StatusCode res = 204 \<or> successValue = None")
      case True
      with assms sendRequest_ok_no_decode [OF do ok True, of lib]
      have "r = \<lparr>Status = StatusCode res, Data = NilValue\<rparr>" by simp
      with do ok True show ?thesis by auto
    next
      case False
      then obtain s where s: "successValue = Some s" and n: "StatusCode res \<noteq> 204" by auto
      with assms sendRequest_ok_decode [OF do ok n, of lib s]
      obtain v where v: "Decode_any lib (response.Body res) s = Inr v"
        and r: "r = \<lparr>Status = StatusCode res, Data = toAny v\<rparr>"
        by (auto split: sum.splits)
      have "toAny v = NilValue \<longleftrightarrow> v = None" by (cases v) simp_all
      with do ok s n v r show ?thesis by auto
    qed
  qed
qed

text \<open>
  Status 200, the body \<^verbatim>\<open>null\<close> and the generic map as success shape: the decoder leaves
  the success value \<^verbatim>\<open>nil\<close>, and the data is absent.
\<close>

theorem sendRequest_data_witness:
  "sendRequest canned (sut ''http://localhost'' (Inr (Result 200 ''null''))) testRequest (Some []) []
     = (Inr \<lparr>Status = 200, Data = NilValue\<rparr>,
        [testRequest\<lparr>Header := Header_Set ''apikey'' [] (Header testRequest)\<rparr>])
   \<and> (\<exists>res. HttpClient (sut ''http://localhost'' (Inr (Result 200 ''null'')))
               (testRequest\<lparr>Header := Header_Set ''apikey''
                   (ApiKey (sut ''http://localhost'' (Inr (Result 200 ''null'')))) (Header testRequest)\<rparr>) []
               = (Inr res, [testRequest\<lparr>Header := Header_Set ''apikey'' [] (Header testRequest)\<rparr>])
          \<and> StatusCode res = 200
          \<and> Decode_any canned (response.Body res) [] = Inr None)"
proof -
  let ?c = "sut ''http://localhost'' (Inr (Result 200 ''null''))"
  let ?r = "\<lparr>Status = 200, Data = NilValue\<rparr> :: (string \<times> json) list AuthResponse"
  let ?n = "[testRequest\<lparr>Header := Header_Set ''apikey'' [] (Header testRequest)\<rparr>]"
  have ok: "(200::int) \<le> StatusCode (Result 200 ''null'')" "StatusCode (Result 200 ''null'') < 300"
    "StatusCode (Result 200 ''null'') \<noteq> 204"
    by (simp_all add: Result_def)
  have dec: "Decode_any canned (response.Body (Result 200 ''null'')) [] = Inr None"
    by (simp add: Decode_any_def Result_def Scan_canned_null)
       (simp add: canned_def cannedWith_def cannedStore_def)
  have run: "sendRequest canned ?c testRequest (Some []) [] = (Inr ?r, ?n)"
    by (simp add: sendRequest_ok_decode [OF Do_sut ok] dec) (simp add: Result_def)
  from sendRequest_data [OF run] obtain res where
    "HttpClient ?c (testRequest\<lparr>Header := Header_Set ''apikey'' (ApiKey ?c) (Header testRequest)\<rparr>) []
       = (Inr res, ?n)"
    and "AuthResponse.Status ?r = StatusCode res"
    and "Data ?r = NilValue \<longleftrightarrow>
           (StatusCode res \<ge> 200 \<and> StatusCode res < 300)
           \<and> (StatusCode res = 204 \<or> Some ([]::(string \<times> json) list) = None
               \<or> (\<exists>s. Some [] = Some s \<and> Decode_any canned (response.Body res) s = Inr None))"
    by blast
  then have "HttpClient ?c (testRequest\<lparr>Header := Header_Set ''apikey'' (ApiKey ?c) (Header testRequest)\<rparr>) []
       = (Inr res, ?n) \<and> StatusCode res = 200 \<and> Decode_any canned (response.Body res) [] = Inr None"
    by auto
  with run show ?thesis by blast
qed

text \<open>
  C3. For a response with a status code in [200,300): when the status code is 204 or the
  success shape is \<^verbatim>\<open>nil\<close>, \<^verbatim>\<open>sendRequest\<close> returns no error and an envelope without data,
  whatever the body is; otherwise, when the body decodes into the success shape, it
  returns an envelope whose data is the decoded value and whose status is the status
  code of the response, and when decoding fails it returns the decoder's error.
\<close>

theorem sendRequest_success_range:
  assumes "HttpClient c (req\<lparr>Header := Header_Set ''apikey'' (ApiKey c) (Header req)\<rparr>) net = (Inr res, net')"
    and "StatusCode res \<ge> 200" and "StatusCode res < 300"
  shows "(StatusCode res = 204 \<or> successValue = None
            \<longrightarrow> sendRequest lib c req successValue net
                  = (Inr \<lparr>Status = StatusCode res, Data = NilValue\<rparr>, net'))
       \<and> (\<forall>s v. StatusCode res \<noteq> 204 \<and> successValue = Some s
                   \<and> Decode_any lib (response.Body res) s = Inr v
            \<longrightarrow> sendRequest lib c req successValue net
                  = (Inr \<lparr>Status = StatusCode res, Data = toAny v\<rparr>, net'))
       \<and> (\<forall>s err. StatusCode res \<noteq> 204 \<and> successValue = Some s
                   \<and> Decode_any lib (response.Body res) s = Inl err
            \<longrightarrow> sendRequest lib c req successValue net = (Inl err, net'))"
  using sendRequest_ok_no_decode [OF assms, of successValue lib]
    sendRequest_ok_decode [OF assms, of lib]
  by auto

text \<open>
  The first two cases of \<^verbatim>\<open>sendRequestsTests\<close>: status 204 without a body, and status 200
  with the body \<^verbatim>\<open>{"foo": "bar"}\<close>.
\<close>

theorem sendRequest_success_range_witness:
  "sendRequest canned (sut ''http://localhost'' (Inr (Result 204 []))) testRequest (Some []) []
     = (Inr \<lparr>Status = 204, Data = NilValue\<rparr>,
        [testRequest\<lparr>Header := Header_Set ''apikey'' [] (Header testRequest)\<rparr>])
   \<and> sendRequest canned (sut ''http://localhost'' (Inr (Result 200 fooBar))) testRequest
        (Some []) []
     = (Inr \<lparr>Status = 200, Data = SuccessValue [(''foo'', JString ''bar'')]\<rparr>,
        [testRequest\<lparr>Header := Header_Set ''apikey'' [] (Header testRequest)\<rparr>])"
proof
  have ok: "(200::int) \<le> StatusCode (Result 204 [])" "StatusCode (Result 204 []) < 300"
    by (simp_all add: Result_def)
  from sendRequest_success_range [OF Do_sut ok, where successValue = "Some []" and lib = canned]
  show "sendRequest canned (sut ''http://localhost'' (Inr (Result 204 []))) testRequest (Some []) []
     = (Inr \<lparr>Status = 204, Data = NilValue\<rparr>,
        [testRequest\<lparr>Header := Header_Set ''apikey'' [] (Header testRequest)\<rparr>])"
    by (simp add: Result_def)
next
  let ?res = "Result 200 fooBar"
  have ok: "(200::int) \<le> StatusCode ?res" "StatusCode ?res < 300"
    by (simp_all add: Result_def)
  have dec: "Decode_any canned (response.Body ?res) [] = Inr (Some [(''foo'', JString ''bar'')])"
    by (simp add: Decode_any_def Result_def Scan_canned_fooBar) (simp add: canned_def cannedWith_def cannedStore_def)
  from sendRequest_success_range [OF Do_sut ok, where successValue = "Some []" and lib = canned] dec
  show "sendRequest canned (sut ''http://localhost'' (Inr ?res)) testRequest (Some []) []
     = (Inr \<lparr>Status = 200, Data = SuccessValue [(''foo'', JString ''bar'')]\<rparr>,
        [testRequest\<lparr>Header := Header_Set ''apikey'' [] (Header testRequest)\<rparr>])"
    by (simp add: Result_def)
qed

text \<open>
  C4, as stated: for every response, in the success range or outside it, a body that is
  syntactically invalid JSON makes \<^verbatim>\<open>sendRequest\<close> return an error and no envelope. This
  fails where the body is not decoded: with status 200, no success shape and the body
  \<^verbatim>\<open>!\<close>, \<^verbatim>\<open>sendRequest\<close> returns an envelope without data and no error.
\<close>

theorem sendRequest_invalid_json_counterexample:
  "Scan canned (response.Body (Result 200 ''!'')) = Inl errInvalidCharacter
   \<and> fst (sendRequest canned (sut ''http://localhost'' (Inr (Result 200 ''!''))) testRequest None [])
       = Inr \<lparr>Status = 200, Data = NilValue\<rparr>"
proof -
  have ok: "(200::int) \<le> StatusCode (Result 200 ''!'')" "StatusCode (Result 200 ''!'') < 300"
    by (simp_all add: Result_def)
  show ?thesis
    by (simp add: sendRequest_ok_no_decode [OF Do_sut ok] Scan_canned_bang) (simp add: Result_def Scan_canned_bang)
qed

text \<open>
  C4, amended: \<^verbatim>\<open>Decode\<close> reads the first JSON value of the body and does not look at
  what follows it. For every response, \<^verbatim>\<open>sendRequest\<close> returns the decoder's read error and
  no envelope exactly when the decoder cannot read a first JSON value from the body and
  the body is decoded at all, that is, when the status code is outside [200,300), or is
  not 204 while a success shape is requested.
\<close>

theorem sendRequest_invalid_json:
  assumes "HttpClient c (req\<lparr>Header := Header_Set ''apikey'' (ApiKey c) (Header req)\<rparr>) net = (Inr res, net')"
  shows "sendRequest lib c req successValue net = (Inl (ScanError d), net')
         \<longleftrightarrow> Scan lib (response.Body res) = Inl d
             \<and> (\<not> (StatusCode res \<ge> 200 \<and> StatusCode res < 300)
                 \<or> (StatusCode res \<noteq> 204 \<and> successValue \<noteq> None))"
proof (cases "StatusCode res \<ge> 200 \<and> StatusCode res < 300")
  case False
  have "Unmarshal_ErrorResponse j ev \<noteq> Inl (ScanError d)" for j ev
  proof (cases j)
    case (JObject kvs)
    have "object kvs ev \<noteq> Inl (ScanError d)" for ev
    proof (induction kvs arbitrary: ev)
      case Nil
      show ?case by simp
    next
      case (Cons kv kvs)
      obtain key v where kv: "kv = (key, v)" by (cases kv)
      have "setField f v ev \<noteq> Inl (ScanError d)" for f
        by (cases f; cases v) auto
      with Cons kv show ?case
        by (auto split: option.splits sum.splits)
    qed
    with JObject show ?thesis by (simp add: Unmarshal_ErrorResponse_def)
  qed (simp_all add: Unmarshal_ErrorResponse_def)
  with False show ?thesis
    by (auto simp add: sendRequest_not_ok [OF assms] Decode_ErrorResponse_def split: sum.splits)
next
  case True
  then have ok: "StatusCode res \<ge> 200" "StatusCode res < 300" by simp_all
  show ?thesis
  proof (cases "StatusCode res = 204 \<or> successValue = None")
    case True
    with ok show ?thesis
      by (simp add: sendRequest_ok_no_decode [OF assms ok True])
  next
    case False
    then obtain s where s: "successValue = Some s" and n: "StatusCode res \<noteq> 204" by auto
    with ok show ?thesis
      by (auto simp add: sendRequest_ok_decode [OF assms ok n] Decode_any_def split: sum.splits)
  qed
qed

text \<open>
  The last two cases of \<^verbatim>\<open>sendRequestsTests\<close>: the body \<^verbatim>\<open>!\<close> with status 400 and with
  status 200.
\<close>

theorem sendRequest_invalid_json_witness:
  "sendRequest canned (sut ''http://localhost'' (Inr (Result 400 ''!''))) testRequest (Some []) []
     = (Inl (ScanError errInvalidCharacter),
        [testRequest\<lparr>Header := Header_Set ''apikey'' [] (Header testRequest)\<rparr>])
   \<and> sendRequest canned (sut ''http://localhost'' (Inr (Result 200 ''!''))) testRequest (Some []) []
     = (Inl (ScanError errInvalidCharacter),
        [testRequest\<lparr>Header := Header_Set ''apikey'' [] (Header testRequest)\<rparr>])"
proof
  have sc: "Scan canned (response.Body (Result 400 ''!'')) = Inl errInvalidCharacter"
    by (simp add: Result_def Scan_canned_bang)
  have st: "\<not> (StatusCode (Result 400 ''!'') \<ge> 200 \<and> StatusCode (Result 400 ''!'') < 300)
         \<or> (StatusCode (Result 400 ''!'') \<noteq> 204 \<and> Some ([]::(string \<times> json) list) \<noteq> None)"
    by (simp add: Result_def)
  from sendRequest_invalid_json [OF Do_sut, THEN iffD2, OF conjI, OF sc st]
  show "sendRequest canned (sut ''http://localhost'' (Inr (Result 400 ''!''))) testRequest (Some []) []
     = (Inl (ScanError errInvalidCharacter),
        [testRequest\<lparr>Header := Header_Set ''apikey'' [] (Header testRequest)\<rparr>])"
    by simp
next
  have sc: "Scan canned (response.Body (Result 200 ''!'')) = Inl errInvalidCharacter"
    by (simp add: Result_def Scan_canned_bang)
  have st: "\<not> (StatusCode (Result 200 ''!'') \<ge> 200 \<and> StatusCode (Result 200 ''!'') < 300)
         \<or> (StatusCode (Result 200 ''!'') \<noteq> 204 \<and> Some ([]::(string \<times> json) list) \<noteq> None)"
    by (simp add: Result_def)
  from sendRequest_invalid_json [OF Do_sut, THEN iffD2, OF conjI, OF sc st]
  show "sendRequest canned (sut ''http://localhost'' (Inr (Result 200 ''!''))) testRequest (Some []) []
     = (Inl (ScanError errInvalidCharacter),
        [testRequest\<lparr>Header := Header_Set ''apikey'' [] (Header testRequest)\<rparr>])"
    by simp
qed

text \<open>
  C5. On a client whose base URL is empty, \<^verbatim>\<open>createRequest\<close> fails with the error
  \<^verbatim>\<open>supabase api url is empty\<close> for every method, endpoint and payload, and produces no
  request; \<^verbatim>\<open>createAndSendRequest\<close> fails with the same error and leaves the world
  behind the transport as it was, whatever the transport is.
\<close>

theorem createRequest_empty_BaseUrl:
  assumes "BaseUrl c = []"
  shows "createRequest lib c method endpoint data = Inl (ErrorsNew ''supabase api url is empty'')
       \<and> createAndSendRequest lib c method endpoint data successValue net
           = (Inl (ErrorsNew ''supabase api url is empty''), net)"
  using assms by (simp add: createRequest_def createAndSendRequest_def)

text \<open>The second case of \<^verbatim>\<open>varCreateAndSendRequestTests\<close>; the mock records no call.\<close>

theorem createRequest_empty_BaseUrl_witness:
  "createRequest canned (sut [] (Inr (Result 400 fooBar))) MethodPost ''test'' NilPayload
     = Inl (ErrorsNew ''supabase api url is empty'')
   \<and> createAndSendRequest canned (sut [] (Inr (Result 400 fooBar))) MethodPost ''test''
        NilPayload (Some []) []
     = (Inl (ErrorsNew ''supabase api url is empty''), [])"
proof -
  have h: "BaseUrl (sut [] (Inr (Result 400 fooBar))) = []"
    by (simp add: sut_def)
  show ?thesis by (simp add: createRequest_empty_BaseUrl [OF h])
qed

text \<open>
  C6, as stated: on a client with a base URL, \<^verbatim>\<open>createRequest\<close> fails with the error of
  the URL parser exactly when the composed URL is not valid. This fails when the
  payload cannot be serialised: \<^verbatim>\<open>json.Marshal\<close> runs first, and its error is the one
  returned, also for a URL that does not parse.
\<close>

theorem createRequest_url_counterexample:
  "BaseUrl (sut ''https://test.supabase.co{auth/v1'' (Inl ''http client error'')) \<noteq> []
   \<and> ParseURL canned (''https://test.supabase.co{auth/v1'' @ ''/'' @ ''test'')
       = Inl errInvalidURL
   \<and> createRequest canned (sut ''https://test.supabase.co{auth/v1'' (Inl ''http client error''))
        ''GET'' ''test'' ChanPayload
       = Inl (MarshalError ''json: unsupported type: chan int'')"
  by (simp add: createRequest_nonempty sut_def canned_def cannedWith_def cannedParseURL_def errInvalidURL_def)

text \<open>
  C6, amended: on a client with a base URL, the URL that \<^verbatim>\<open>createRequest\<close> composes is the
  base URL when the endpoint is empty and the base URL, a slash and the endpoint
  otherwise. \<^verbatim>\<open>createRequest\<close> fails with the error of the URL parser exactly when the
  payload can be serialised, the method is valid (an empty method stands for GET) and
  the parser refuses the composed URL; a request that it returns has the parsed
  composed URL.
\<close>

theorem createRequest_url:
  assumes "BaseUrl c \<noteq> []"
  shows "(createRequest lib c method endpoint data = Inl (URLError d)
          \<longleftrightarrow> (\<exists>j. encode data = Inr j)
              \<and> validMethod (if method = [] then ''GET'' else method)
              \<and> ParseURL lib (if endpoint = [] then BaseUrl c else BaseUrl c @ ''/'' @ endpoint) = Inl d)
       \<and> (\<forall>req. createRequest lib c method endpoint data = Inr req
            \<longrightarrow> ParseURL lib (if endpoint = [] then BaseUrl c else BaseUrl c @ ''/'' @ endpoint)
                  = Inr (URL req))"
  by (auto simp add: createRequest_nonempty [OF assms] split: sum.splits if_splits)

text \<open>
  The case \<^verbatim>\<open>invalid url\<close> of \<^verbatim>\<open>createRequestTests\<close>, and the URL of the case with
  \<^verbatim>\<open>nil\<close> data.
\<close>

theorem createRequest_url_witness:
  "createRequest canned (sut ''https://test.supabase.co{auth/v1'' (Inl ''http client error''))
     ''GET'' ''test'' NilPayload
     = Inl (URLError errInvalidURL)
   \<and> ParseURL canned ''https://test.supabase.co/auth/v1/test''
     = Inr (URL \<lparr>Method = ''GET'', URL = ''https://test.supabase.co/auth/v1/test'',
                  Header = Header_Set ''Accept'' ''application/json''
                             (Header_Set ''Content-Type'' ''application/json'' Map.empty),
                  request.Body = ''null''\<rparr>)"
proof
  let ?c = "sut ''https://test.supabase.co{auth/v1'' (Inl ''http client error'')"
  have h: "BaseUrl ?c \<noteq> []" by (simp add: sut_def)
  have "(\<exists>j. encode NilPayload = Inr j) \<and> validMethod (if ''GET'' = [] then ''GET'' else ''GET'')
     \<and> ParseURL canned (if ''test'' = [] then BaseUrl ?c else BaseUrl ?c @ ''/'' @ ''test'')
        = Inl errInvalidURL"
    by (simp add: sut_def validMethod_def isTokenChar_def canned_def cannedWith_def cannedParseURL_def errInvalidURL_def)
  with createRequest_url [OF h, of canned "''GET''" "''test''" NilPayload "errInvalidURL"]
  show "createRequest canned ?c ''GET'' ''test'' NilPayload = Inl (URLError errInvalidURL)"
    by blast
next
  let ?c = "sut ''https://test.supabase.co/auth/v1'' (Inl ''http client error'')"
  let ?req = "\<lparr>Method = ''GET'', URL = ''https://test.supabase.co/auth/v1/test'',
                  Header = Header_Set ''Accept'' ''application/json''
                             (Header_Set ''Content-Type'' ''application/json'' Map.empty),
                  request.Body = ''null''\<rparr>"
  have h: "BaseUrl ?c \<noteq> []" by (simp add: sut_def)
  have "createRequest canned ?c ''GET'' ''test'' NilPayload = Inr ?req"
    by (simp add: createRequest_nonempty [OF h])
       (simp add: sut_def validMethod_def isTokenChar_def canned_def cannedWith_def
          cannedParseURL_def cannedRender_def)
  with createRequest_url [OF h, of canned "''GET''" "''test''" NilPayload]
  have "ParseURL canned (if ''test'' = [] then BaseUrl ?c else BaseUrl ?c @ ''/'' @ ''test'')
          = Inr (URL ?req)"
    by blast
  then show "ParseURL canned ''https://test.supabase.co/auth/v1/test'' = Inr (URL ?req)"
    by (simp add: sut_def)
qed

text \<open>
  C7. When \<^verbatim>\<open>Do\<close> returns an error, \<^verbatim>\<open>sendRequest\<close> returns that error and no envelope,
  whatever the standard library would make of a body.
\<close>

theorem sendRequest_transport_error:
  assumes "HttpClient c (req\<lparr>Header := Header_Set ''apikey'' (ApiKey c) (Header req)\<rparr>) net = (Inl err, net')"
  shows "sendRequest lib c req successValue net = (Inl (DoError err), net')"
  using assms by (simp add: sendRequest_def)

text \<open>The case \<^verbatim>\<open>simulates a client error\<close> of \<^verbatim>\<open>sendRequestsTests\<close>.\<close>

theorem sendRequest_transport_error_witness:
  "sendRequest canned (sut ''http://localhost'' (Inl ''http client error'')) testRequest (Some []) []
     = (Inl (DoError ''http client error''),
        [testRequest\<lparr>Header := Header_Set ''apikey'' [] (Header testRequest)\<rparr>])"
  by (simp add: sendRequest_transport_error [OF Do_sut])

text \<open>
  C8. The body of a request that \<^verbatim>\<open>createRequest\<close> returns for a payload is the text
  \<^verbatim>\<open>json.Marshal\<close> writes for the payload, unchanged. So for every payload whose JSON
  value the decoder reads back from that text, the body of the request, deserialised,
  is the payload's JSON value.
\<close>

theorem createRequest_body_roundtrip:
  assumes "createRequest lib c method endpoint p = Inr req"
    and "\<forall>j. encode p = Inr j \<longrightarrow> Scan lib (Render lib j) = Inr j"
  shows "\<exists>j. encode p = Inr j \<and> request.Body req = Render lib j
            \<and> Scan lib (request.Body req) = Inr j"
proof -
  from assms(1) have ne: "BaseUrl c \<noteq> []"
    by (auto simp add: createRequest_def)
  from assms(1) obtain j where j: "encode p = Inr j" and b: "request.Body req = Render lib j"
    by (auto simp add: createRequest_nonempty [OF ne] split: sum.splits if_splits)
  with assms(2) show ?thesis by auto
qed

text \<open>The case with \<^verbatim>\<open>nil\<close> data of \<^verbatim>\<open>createRequestTests\<close>: the body \<^verbatim>\<open>null\<close>.\<close>

theorem createRequest_body_roundtrip_witness:
  "encode NilPayload = Inr JNull
   \<and> Scan canned (request.Body
        \<lparr>Method = ''GET'', URL = ''https://test.supabase.co/auth/v1/test'',
         Header = Header_Set ''Accept'' ''application/json''
                    (Header_Set ''Content-Type'' ''application/json'' Map.empty),
         request.Body = ''null''\<rparr>) = Inr JNull"
proof -
  let ?c = "sut ''https://test.supabase.co/auth/v1'' (Inl ''http client error'')"
  let ?req = "\<lparr>Method = ''GET'', URL = ''https://test.supabase.co/auth/v1/test'',
                  Header = Header_Set ''Accept'' ''application/json''
                             (Header_Set ''Content-Type'' ''application/json'' Map.empty),
                  request.Body = ''null''\<rparr>"
  have h: "BaseUrl ?c \<noteq> []" by (simp add: sut_def)
  have cr: "createRequest canned ?c ''GET'' ''test'' NilPayload = Inr ?req"
    by (simp add: createRequest_nonempty [OF h])
       (simp add: sut_def validMethod_def isTokenChar_def canned_def cannedWith_def
          cannedParseURL_def cannedRender_def)
  have rt: "\<forall>j. encode NilPayload = Inr j \<longrightarrow> Scan canned (Render canned j) = Inr j"
    by (simp add: canned_def cannedWith_def cannedRender_def cannedScan_def fooBar_def badRequest_def)
  from createRequest_body_roundtrip [OF cr rt] obtain j where
    "encode NilPayload = Inr j" and "Scan canned (request.Body ?req) = Inr j"
    by blast
  then show ?thesis by simp
qed

text \<open>
  C9. \<^verbatim>\<open>SignUp\<close> and \<^verbatim>\<open>SignIn\<close> send the request that \<^verbatim>\<open>createRequest\<close> builds for the
  credentials, and its body is the text of a JSON object with the keys \<^verbatim>\<open>Email\<close> and
  \<^verbatim>\<open>Password\<close>, the names of the fields of \<^verbatim>\<open>UserCredentials\<close>.
\<close>

theorem SignUp_SignIn_credentials_keys:
  "(\<forall>req. createRequest lib (client a) MethodPost ''signup'' (CredentialsPayload credentials) = Inr req
      \<longrightarrow> SignUp lib a credentials net
            = sendRequest lib (client a) req (Some (SignUpShape zeroSignUp)) net
          \<and> request.Body req
            = Render lib (JObject [(''Email'', JString (UserCredentials.Email credentials)),
                                   (''Password'', JString (Password credentials))]))
   \<and> (\<forall>req. createRequest lib (client a) MethodPost ''token?grant_type=password''
              (CredentialsPayload credentials) = Inr req
      \<longrightarrow> SignIn lib a credentials net
            = sendRequest lib (client a) req (Some (AuthenticatedShape zeroAuthenticated)) net
          \<and> request.Body req
            = Render lib (JObject [(''Email'', JString (UserCredentials.Email credentials)),
                                   (''Password'', JString (Password credentials))]))"
  by (simp add: SignUp_def SignIn_def createAndSendRequest_Inr createRequest_Credentials_body)

text \<open>
  \<^verbatim>\<open>SignUp\<close> with the credentials of \<^verbatim>\<open>auth_test.go\<close> on a transport that fails: the mock
  has recorded the request with the capitalised keys.
\<close>

theorem SignUp_SignIn_credentials_keys_witness:
  \<open>SignUp (cannedWith noStore)
     \<lparr>client = sut ''https://test.supabase.co/auth/v1'' (Inl ''http client error'')\<rparr> creds []
   = (Inl (DoError ''http client error''),
      [signupRequest\<lparr>Header := Header_Set ''apikey'' [] (Header signupRequest)\<rparr>])
   \<and> request.Body signupRequest = ''{"Email":"test@example.com","Password":"password"}''\<close>
proof -
  let ?a = "\<lparr>client = sut ''https://test.supabase.co/auth/v1'' (Inl ''http client error'')\<rparr>"
  have cr: "createRequest (cannedWith noStore) (client ?a) MethodPost ''signup''
              (CredentialsPayload creds) = Inr signupRequest"
    by (simp add: createRequest_signup)
  from SignUp_SignIn_credentials_keys [of "cannedWith noStore" ?a creds "[]"] cr
  have "SignUp (cannedWith noStore) ?a creds []
          = sendRequest (cannedWith noStore) (client ?a) signupRequest (Some (SignUpShape zeroSignUp)) []"
    by blast
  then show ?thesis
    by (simp add: sendRequest_Do_error [OF Do_sut]) (simp add: signupRequest_def)
qed

text \<open>
  C10. For a response outside the success range whose body is \<^verbatim>\<open>null\<close>, or an object
  none of whose keys addresses a field of \<^verbatim>\<open>ErrorResponse\<close> (such as \<^verbatim>\<open>{}\<close>),
  \<^verbatim>\<open>sendRequest\<close> returns no error and an envelope whose data is an \<^verbatim>\<open>ErrorResponse\<close> of
  zero values. For every object that decodes, a field that no key addresses has its
  zero value: nothing requires \<^verbatim>\<open>code\<close>, \<^verbatim>\<open>error_code\<close> or \<^verbatim>\<open>msg\<close> to be present.
\<close>

theorem sendRequest_absent_fields:
  assumes "HttpClient c (req\<lparr>Header := Header_Set ''apikey'' (ApiKey c) (Header req)\<rparr>) net = (Inr res, net')"
    and "\<not> (StatusCode res \<ge> 200 \<and> StatusCode res < 300)"
    and "Scan lib (response.Body res) = Inr j"
  shows "(j = JNull \<or> (\<exists>kvs. j = JObject kvs \<and> (\<forall>kv \<in> set kvs. fieldByName (fst kv) = None))
           \<longrightarrow> sendRequest lib c req successValue net
                 = (Inr \<lparr>Status = StatusCode res,
                         Data = ErrorValue \<lparr>ErrorResponse.Status = 0, ErrorCode = [], Message = []\<rparr>\<rparr>,
                    net'))
       \<and> (\<forall>kvs ev. j = JObject kvs
              \<and> object kvs \<lparr>ErrorResponse.Status = 0, ErrorCode = [], Message = []\<rparr> = Inr ev
           \<longrightarrow> sendRequest lib c req successValue net
                 = (Inr \<lparr>Status = StatusCode res, Data = ErrorValue ev\<rparr>, net')
               \<and> ((\<forall>kv \<in> set kvs. fieldByName (fst kv) \<noteq> Some StatusField)
                    \<longrightarrow> ErrorResponse.Status ev = 0)
               \<and> ((\<forall>kv \<in> set kvs. fieldByName (fst kv) \<noteq> Some ErrorCodeField)
                    \<longrightarrow> ErrorCode ev = [])
               \<and> ((\<forall>kv \<in> set kvs. fieldByName (fst kv) \<noteq> Some MessageField)
                    \<longrightarrow> Message ev = []))"
proof -
  let ?zero = "\<lparr>ErrorResponse.Status = 0, ErrorCode = [], Message = []\<rparr>"
  have run: "sendRequest lib c req successValue net =
     (case Unmarshal_ErrorResponse j ?zero of
        Inl err \<Rightarrow> (Inl err, net')
      | Inr ev \<Rightarrow> (Inr \<lparr>Status = StatusCode res, Data = ErrorValue ev\<rparr>, net'))"
    using assms(3) by (simp add: sendRequest_not_ok [OF assms(1,2)] Decode_ErrorResponse_def)
  have "j = JNull \<or> (\<exists>kvs. j = JObject kvs \<and> (\<forall>kv \<in> set kvs. fieldByName (fst kv) = None))
          \<Longrightarrow> Unmarshal_ErrorResponse j ?zero = Inr ?zero"
    by (auto simp add: Unmarshal_ErrorResponse_def object_no_field)
  moreover have "\<And>kvs ev. j = JObject kvs \<Longrightarrow> object kvs ?zero = Inr ev
          \<Longrightarrow> Unmarshal_ErrorResponse j ?zero = Inr ev"
    by (simp add: Unmarshal_ErrorResponse_def)
  moreover have "\<And>kvs ev f. object kvs ?zero = Inr ev
          \<Longrightarrow> \<forall>kv \<in> set kvs. fieldByName (fst kv) \<noteq> Some f
          \<Longrightarrow> (f = StatusField \<longrightarrow> ErrorResponse.Status ev = 0)
              \<and> (f = ErrorCodeField \<longrightarrow> ErrorCode ev = [])
              \<and> (f = MessageField \<longrightarrow> Message ev = [])"
    using object_unaddressed [where ev = ?zero] by simp
  ultimately show ?thesis
    by (simp add: run) blast
qed

text \<open>Status 400 with the bodies \<^verbatim>\<open>null\<close>, \<^verbatim>\<open>{}\<close> and \<^verbatim>\<open>{"foo": "bar"}\<close>.\<close>

theorem sendRequest_absent_fields_witness:
  "sendRequest canned (sut ''http://localhost'' (Inr (Result 400 ''null''))) testRequest (Some []) []
     = (Inr \<lparr>Status = 400,
             Data = ErrorValue \<lparr>ErrorResponse.Status = 0, ErrorCode = [], Message = []\<rparr>\<rparr>,
        [testRequest\<lparr>Header := Header_Set ''apikey'' [] (Header testRequest)\<rparr>])
   \<and> sendRequest canned (sut ''http://localhost'' (Inr (Result 400 ''{}''))) testRequest (Some []) []
     = (Inr \<lparr>Status = 400,
             Data = ErrorValue \<lparr>ErrorResponse.Status = 0, ErrorCode = [], Message = []\<rparr>\<rparr>,
        [testRequest\<lparr>Header := Header_Set ''apikey'' [] (Header testRequest)\<rparr>])
   \<and> sendRequest canned (sut ''http://localhost'' (Inr (Result 400 fooBar))) testRequest (Some []) []
     = (Inr \<lparr>Status = 400,
             Data = ErrorValue \<lparr>ErrorResponse.Status = 0, ErrorCode = [], Message = []\<rparr>\<rparr>,
        [testRequest\<lparr>Header := Header_Set ''apikey'' [] (Header testRequest)\<rparr>])"
proof -
  have st: "\<And>body. \<not> (StatusCode (Result 400 body) \<ge> 200 \<and> StatusCode (Result 400 body) < 300)"
    by (simp add: Result_def)
  have n: "Scan canned (response.Body (Result 400 ''null'')) = Inr JNull"
    by (simp add: Result_def Scan_canned_null)
  have e: "Scan canned (response.Body (Result 400 ''{}'')) = Inr (JObject [])"
    by (simp add: Result_def Scan_canned_empty_object)
  have f: "Scan canned (response.Body (Result 400 fooBar)) = Inr (JObject [(''foo'', JString ''bar'')])"
    by (simp add: Result_def Scan_canned_fooBar)
  have foo: "\<forall>kv \<in> set [(''foo'', JString ''bar'')]. fieldByName (fst kv) = None"
    by (simp add: fieldByName_def toUpper_def)
  from sendRequest_absent_fields [OF Do_sut st n, where successValue = "Some []"]
    sendRequest_absent_fields [OF Do_sut st e, where successValue = "Some []"]
    sendRequest_absent_fields [OF Do_sut st f, where successValue = "Some []"] foo
  show ?thesis by (simp add: Result_def)
qed

end
